theory Spec2Isabelle
  imports Complex_Main "HOL-Library.Sublist"
begin

section \<open>JavaScript values\<close>

text \<open>
  The stores of \<^verbatim>\<open>mindKeeper.ts\<close> hold JavaScript primitives. Strings are character
  lists. JavaScript numbers are IEEE doubles; the development does not fix their
  arithmetic: the number type is the type variable \<open>'n\<close>, and the built-in operations the
  source applies to numbers are the fields of the record \<open>JS\<close>, taken as a parameter by
  every function that uses one of them. The literal \<^verbatim>\<open>0\<close> is the \<open>0\<close> of the number type.
\<close>

datatype 'n jsvalue =
    JString string
  | JNumber 'n
  | JBoolean bool
  | JVector3 'n 'n 'n

text \<open>The operator \<^verbatim>\<open>typeof\<close>; a \<^verbatim>\<open>Vector3\<close> is an object.\<close>

fun typeof :: "'n jsvalue \<Rightarrow> string" where
  "typeof (JString s) = ''string''"
| "typeof (JNumber x) = ''number''"
| "typeof (JBoolean b) = ''boolean''"
| "typeof (JVector3 x y z) = ''object''"

record 'n JS =
  Number :: "string \<Rightarrow> 'n"  \<comment> \<open>\<^verbatim>\<open>Number(text)\<close>\<close>
  isNaN :: "'n \<Rightarrow> bool"  \<comment> \<open>\<^verbatim>\<open>isNaN(x)\<close>\<close>
  plus_one :: "'n \<Rightarrow> 'n"  \<comment> \<open>\<^verbatim>\<open>x + 1\<close>\<close>
  num_toString :: "'n \<Rightarrow> string"  \<comment> \<open>a number inside a template literal\<close>

text \<open>A value, or \<^verbatim>\<open>undefined\<close>, inside a template literal.\<close>

fun template :: "'n JS \<Rightarrow> 'n jsvalue option \<Rightarrow> string" where
  "template js None = ''undefined''"
| "template js (Some (JString s)) = s"
| "template js (Some (JNumber x)) = num_toString js x"
| "template js (Some (JBoolean b)) = (if b then ''true'' else ''false'')"
| "template js (Some (JVector3 x y z)) = ''[object Object]''"

text \<open>A string that may be \<^verbatim>\<open>undefined\<close>, inside a template literal.\<close>

fun template_str :: "string option \<Rightarrow> string" where
  "template_str None = ''undefined''"
| "template_str (Some s) = s"

text \<open>\<^verbatim>\<open>s.split(" ")\<close>: never empty, two adjacent spaces give an empty token.\<close>

fun split_sp :: "string \<Rightarrow> string list" where
  "split_sp [] = [[]]"
| "split_sp (c # cs) =
     (if c = CHR '' '' then [] # split_sp cs
      else (case split_sp cs of [] \<Rightarrow> [[c]] | t # ts \<Rightarrow> (c # t) # ts))"

text \<open>\<^verbatim>\<open>xs[i]\<close>, which is \<^verbatim>\<open>undefined\<close> out of range.\<close>

definition index :: "'a list \<Rightarrow> nat \<Rightarrow> 'a option" where
  "index xs i = (if i < length xs then Some (xs ! i) else None)"

text \<open>
  \<^verbatim>\<open>s.toLowerCase()\<close> on the letters A to Z. Other characters are left as they are:
  the source only compares the result with \<^verbatim>\<open>"true"\<close>, and no character outside A to Z has
  one of t, r, u, e as its lower case.
\<close>

definition lower_char :: "char \<Rightarrow> char" where
  "lower_char c =
     (let n = (of_char c :: nat)
      in if 65 \<le> n \<and> n \<le> 90 then char_of (n + 32) else c)"

definition toLowerCase :: "string \<Rightarrow> string" where
  "toLowerCase s = map lower_char s"

section \<open>The host: dynamic properties, chat and the run queue\<close>

text \<open>
  Modelled from the spec: the Persistence Adapter is the world's dynamic-property API of
  \<^verbatim>\<open>@minecraft/server\<close>, which is not code of the repository. Reading a key returns a
  primitive or \<^verbatim>\<open>undefined\<close>, and for an unset key it may throw instead; a write makes the
  key defined; clearing removes every defined value.
\<close>

datatype 'n DynamicProperty = Throws | Undefined | Defined "'n jsvalue"

text \<open>
  The world also carries the chat (the texts sent with \<^verbatim>\<open>sendMessage\<close>, oldest first).
  \<open>runQueue\<close> is the queue of \<^verbatim>\<open>system.run\<close>: the only callbacks the source queues are
  writes of one value to one key, so a queued callback is the pair of the key and the value.
\<close>

record 'n World =
  dynamicProperties :: "string \<Rightarrow> 'n DynamicProperty"
  chat :: "string list"
  runQueue :: "(string \<times> 'n jsvalue) list"

datatype exn = Exception

text \<open>
  Modelled from the spec: \<^verbatim>\<open>getDynamicProperty\<close> fails with an exception on an invalid
  name; \<^verbatim>\<open>undefined\<close> in place of the name is such a name.
\<close>

fun getDynamicProperty :: "'n World \<Rightarrow> string option \<Rightarrow> exn + 'n jsvalue option" where
  "getDynamicProperty w None = Inl Exception"
| "getDynamicProperty w (Some n) =
     (case dynamicProperties w n of
        Throws \<Rightarrow> Inl Exception
      | Undefined \<Rightarrow> Inr None
      | Defined v \<Rightarrow> Inr (Some v))"

definition setDynamicProperty :: "'n World \<Rightarrow> string \<Rightarrow> 'n jsvalue \<Rightarrow> 'n World" where
  "setDynamicProperty w n v = w\<lparr>dynamicProperties := (dynamicProperties w)(n := Defined v)\<rparr>"

definition clearDynamicProperties :: "'n World \<Rightarrow> 'n World" where
  "clearDynamicProperties w =
     w\<lparr>dynamicProperties :=
        (\<lambda>n. case dynamicProperties w n of Defined v \<Rightarrow> Undefined | p \<Rightarrow> p)\<rparr>"

definition sendMessage :: "'n World \<Rightarrow> string \<Rightarrow> 'n World" where
  "sendMessage w t = w\<lparr>chat := chat w @ [t]\<rparr>"

text \<open>
  Modelled from the spec: \<^verbatim>\<open>system.run\<close> of \<^verbatim>\<open>@minecraft/server\<close> defers its callback to
  the next scheduler-safe execution slot. The callback of
  \<^verbatim>\<open>system.run(() => world.setDynamicProperty(store, value))\<close> is queued, not run.
\<close>

definition system_run :: "'n World \<Rightarrow> string \<Rightarrow> 'n jsvalue \<Rightarrow> 'n World" where
  "system_run w n v = w\<lparr>runQueue := runQueue w @ [(n, v)]\<rparr>"

text \<open>The host's next tick: the queued callbacks run in the order they were queued.\<close>

definition flush :: "'n World \<Rightarrow> 'n World" where
  "flush w =
     (foldl (\<lambda>w' (n, v). setDynamicProperty w' n v) w (runQueue w))\<lparr>runQueue := []\<rparr>"

section \<open>Stores and the Mindkeeper\<close>

datatype StoreType = Tstring | Tnumber | Tboolean

text \<open>The string each member of the enum \<^verbatim>\<open>StoreType\<close> is.\<close>

fun StoreType_value :: "StoreType \<Rightarrow> string" where
  "StoreType_value Tstring = ''string''"
| "StoreType_value Tnumber = ''number''"
| "StoreType_value Tboolean = ''boolean''"

datatype Store = Store (getType: StoreType) (getName: string)

record 'n Mindkeeper =
  registerdStores :: "Store list"
  world :: "'n World"
  initialised :: bool
  debugLog :: "string list"
  secondWarning :: bool

definition new_Mindkeeper :: "'n World \<Rightarrow> 'n Mindkeeper" where
  "new_Mindkeeper w =
     \<lparr>registerdStores = [], world = w, initialised = False, debugLog = [],
      secondWarning = False\<rparr>"

definition registerStore :: "'n Mindkeeper \<Rightarrow> string \<Rightarrow> StoreType \<Rightarrow> 'n Mindkeeper" where
  "registerStore k store ty = k\<lparr>registerdStores := registerdStores k @ [Store ty store]\<rparr>"

definition getStores :: "'n Mindkeeper \<Rightarrow> Store list" where
  "getStores k = registerdStores k"

definition printDebug :: "'n Mindkeeper \<Rightarrow> 'n Mindkeeper" where
  "printDebug k = k\<lparr>world := foldl sendMessage (world k) (debugLog k)\<rparr>"

text \<open>\<^verbatim>\<open>stores.find((s) => s.getName() === store)\<close>: the first descriptor of that name.\<close>

definition find_store :: "Store list \<Rightarrow> string \<Rightarrow> Store option" where
  "find_store stores store = find (\<lambda>s. getName s = store) stores"

text \<open>The zero value \<^verbatim>\<open>registerToWorld\<close> writes for a type, and the text it logs.\<close>

fun zero_value :: "StoreType \<Rightarrow> ('n::zero) jsvalue" where
  "zero_value Tstring = JString ''''"
| "zero_value Tnumber = JNumber 0"
| "zero_value Tboolean = JBoolean False"

fun registerd_text :: "StoreType \<Rightarrow> string" where
  "registerd_text Tstring = ''registerd string''"
| "registerd_text Tnumber = ''registerd number''"
| "registerd_text Tboolean = ''registerd boolean''"

text \<open>One turn of the loop of \<^verbatim>\<open>registerToWorld\<close>, for the descriptor \<open>s\<close>.\<close>

definition register_one :: "('n::zero) Mindkeeper \<Rightarrow> Store \<Rightarrow> 'n Mindkeeper" where
  "register_one k s =
     (let isAlreadyDefined =
        (case getDynamicProperty (world k) (Some (getName s)) of
           Inl e \<Rightarrow> False
         | Inr None \<Rightarrow> False
         | Inr (Some test) \<Rightarrow> True)
      in if isAlreadyDefined then k
         else k\<lparr>world := setDynamicProperty (world k) (getName s) (zero_value (getType s)),
                debugLog := debugLog k @ [registerd_text (getType s) @ getName s]\<rparr>)"

definition registerToWorld :: "('n::zero) Mindkeeper \<Rightarrow> 'n Mindkeeper" where
  "registerToWorld k = (foldl (register_one) k (registerdStores k))\<lparr>initialised := True\<rparr>"

text \<open>
  \<^verbatim>\<open>set\<close>: the type of the first descriptor of that name, \<^verbatim>\<open>undefined\<close> when there is
  none, is compared with \<^verbatim>\<open>typeof value\<close>. (\<open>set\<close> is a HOL constant.)
\<close>

definition set_store :: "'n Mindkeeper \<Rightarrow> string \<Rightarrow> 'n jsvalue \<Rightarrow> 'n Mindkeeper" where
  "set_store k store v =
     (if map_option (\<lambda>s. StoreType_value (getType s)) (find_store (registerdStores k) store)
           \<noteq> Some (typeof v)
      then k\<lparr>world := sendMessage (world k)
                (''Store '' @ store @ '' is not of type '' @ typeof v)\<rparr>
      else k\<lparr>world := system_run (world k) store v\<rparr>)"

text \<open>
  \<^verbatim>\<open>get\<close> returns the value, or \<^verbatim>\<open>undefined\<close> (\<open>None\<close>), and the Mindkeeper after the
  messages it sent. The chat command \<^verbatim>\<open>!get\<close> can call it with \<^verbatim>\<open>undefined\<close> for a name.
\<close>

definition get_store :: "'n Mindkeeper \<Rightarrow> string option \<Rightarrow> 'n jsvalue option \<times> 'n Mindkeeper" where
  "get_store k store =
     (case getDynamicProperty (world k) store of
        Inr None \<Rightarrow>
          (None, k\<lparr>world := sendMessage (world k)
                     (''Store '' @ template_str store @ '' is not defined'')\<rparr>)
      | Inr (Some data) \<Rightarrow> (Some data, k)
      | Inl e \<Rightarrow> (None, k))"

definition increment :: "'n JS \<Rightarrow> 'n Mindkeeper \<Rightarrow> string \<Rightarrow> 'n Mindkeeper" where
  "increment js k store =
     (case get_store k (Some store) of
        (Some (JNumber data), k') \<Rightarrow> set_store k' store (JNumber (plus_one js data))
      | (_, k') \<Rightarrow> k')"

section \<open>The chat commands\<close>

text \<open>The branch of \<^verbatim>\<open>!get\<close>: the second token may be missing.\<close>

definition command_get :: "'n JS \<Rightarrow> 'n Mindkeeper \<Rightarrow> string \<Rightarrow> 'n Mindkeeper" where
  "command_get js k message =
     (let store = index (split_sp message) 1;
          (v, k') = get_store k store
      in k'\<lparr>world := sendMessage (world k')
               (''Value of '' @ template_str store @ '' is '' @ template js v)\<rparr>)"

text \<open>
  The branch of \<^verbatim>\<open>!set\<close>. The first component of the result tells whether the branch
  left \<^verbatim>\<open>chatCommands\<close> with \<^verbatim>\<open>return\<close>. The fourth token, \<^verbatim>\<open>type\<close>, is read by the source
  and never used.
\<close>

definition command_set :: "'n JS \<Rightarrow> 'n Mindkeeper \<Rightarrow> string \<Rightarrow> bool \<times> 'n Mindkeeper" where
  "command_set js k message =
     (case index (split_sp message) 1 of
        None \<Rightarrow> (True, k\<lparr>world := sendMessage (world k) ''Please provide a store to set''\<rparr>)
      | Some store \<Rightarrow>
     (case index (split_sp message) 2 of
        None \<Rightarrow>
          (True, k\<lparr>world := sendMessage (world k)
                     (''Please provide a value to set for '' @ store)\<rparr>)
      | Some v \<Rightarrow>
     (case map_option getType (find_store (getStores k) store) of
        None \<Rightarrow>
          (True, k\<lparr>world := sendMessage (world k) (''Store '' @ store @ '' is not defined'')\<rparr>)
      | Some actualType \<Rightarrow>
          (if actualType = Tnumber \<and> isNaN js (Number js v)
           then (True, k\<lparr>world := sendMessage (world k)
                            (''Can'' @ [CHR 0x27] @ ''t parse '' @ v @ '' as a number'')\<rparr>)
           else
             (let k' = (case actualType of
                          Tstring \<Rightarrow> set_store k store (JString v)
                        | Tnumber \<Rightarrow> set_store k store (JNumber (Number js v))
                        | Tboolean \<Rightarrow> set_store k store (JBoolean (toLowerCase v = ''true'')))
              in (False, k'\<lparr>world := sendMessage (world k')
                              (''Value of '' @ store @ '' is '' @ v)\<rparr>))))))"

definition command_listStores :: "'n Mindkeeper \<Rightarrow> 'n Mindkeeper" where
  "command_listStores k =
     k\<lparr>world := foldl (\<lambda>w s. sendMessage w (getName s @ '' is '' @ StoreType_value (getType s)))
                  (world k) (getStores k)\<rparr>"

definition command_deleteStores :: "'n Mindkeeper \<Rightarrow> 'n Mindkeeper" where
  "command_deleteStores k =
     k\<lparr>world := sendMessage
         (sendMessage (world k)
            ''ARE YOU SURE YOU WANT TO DELETE ALL STORES? THIS COULD CAUSE ISSUES'')
         ''If you are sure, type !deleteStoresConfirm'',
       secondWarning := True\<rparr>"

definition command_deleteStoresConfirm :: "'n Mindkeeper \<Rightarrow> 'n Mindkeeper" where
  "command_deleteStoresConfirm k =
     k\<lparr>world := clearDynamicProperties
         (foldl (\<lambda>w s. sendMessage w (''Deleting '' @ getName s)) (world k) (getStores k)),
       secondWarning := False\<rparr>"

text \<open>
  \<^verbatim>\<open>chatCommands\<close>, on the text of the chat event: the five \<^verbatim>\<open>if\<close> statements in the
  order of the source, the later ones skipped when \<^verbatim>\<open>!set\<close> returned.
\<close>

definition chatCommands :: "'n JS \<Rightarrow> 'n Mindkeeper \<Rightarrow> string \<Rightarrow> 'n Mindkeeper" where
  "chatCommands js k message =
     (let command = index (split_sp message) 0;
          k1 = (if command = Some ''!get'' then command_get js k message else k);
          (returned, k2) =
            (if command = Some ''!set'' then command_set js k1 message else (False, k1))
      in if returned then k2
         else
           (let k3 = (if prefix ''!listStores'' message then command_listStores k2 else k2);
                k4 = (if command = Some ''!deleteStores'' then command_deleteStores k3 else k3)
            in if secondWarning k4 \<and> command = Some ''!deleteStoresConfirm''
               then command_deleteStoresConfirm k4 else k4))"

section \<open>A sample of the number operations\<close>

text \<open>
  For evaluating the functions on concrete inputs: the numbers that are not-a-number or an
  integer, with \<^verbatim>\<open>Number\<close> on the texts that are empty (0 in JavaScript) or a sequence of
  decimal digits; every other text is not-a-number in this sample.
\<close>

datatype sample_num = SNaN | SInt int

instantiation sample_num :: zero
begin

definition zero_sample_num :: sample_num where
  "zero_sample_num = SInt 0"

instance ..

end

definition digit_value :: "char \<Rightarrow> nat" where
  "digit_value c = of_char c - 48"

definition is_digit :: "char \<Rightarrow> bool" where
  "is_digit c = (48 \<le> (of_char c :: nat) \<and> (of_char c :: nat) \<le> 57)"

definition sample_Number :: "string \<Rightarrow> sample_num" where
  "sample_Number s =
     (if list_all is_digit s then SInt (int (foldl (\<lambda>a c. 10 * a + digit_value c) 0 s))
      else SNaN)"

fun sample_plus_one :: "sample_num \<Rightarrow> sample_num" where
  "sample_plus_one SNaN = SNaN"
| "sample_plus_one (SInt i) = SInt (i + 1)"

fun digits_of :: "nat \<Rightarrow> string" where
  "digits_of n =
     (if n < 10 then [char_of (48 + n)] else digits_of (n div 10) @ [char_of (48 + n mod 10)])"

fun sample_toString :: "sample_num \<Rightarrow> string" where
  "sample_toString SNaN = ''NaN''"
| "sample_toString (SInt i) = (if i < 0 then CHR ''-'' # digits_of (nat (- i)) else digits_of (nat i))"

definition sample_js :: "sample_num JS" where
  "sample_js =
     \<lparr>Number = sample_Number, isNaN = (\<lambda>x. x = SNaN), plus_one = sample_plus_one,
      num_toString = sample_toString\<rparr>"

text \<open>
  A world for concrete evaluations: the key \<open>level\<close> holds 5, \<open>score\<close> holds 3,
  \<open>legacy\<close> holds a text, reading \<open>ghost\<close> throws, and every other key is unset. The
  keeper registers \<open>level\<close> as a number and \<open>player\<close> and \<open>score\<close> as strings; \<open>score\<close>
  is a store whose declared type has changed since its value was written.
\<close>

definition sample_world :: "sample_num World" where
  "sample_world =
     \<lparr>dynamicProperties =
        (\<lambda>n. if n = ''level'' then Defined (JNumber (SInt 5))
             else if n = ''score'' then Defined (JNumber (SInt 3))
             else if n = ''legacy'' then Defined (JString ''old'')
             else if n = ''ghost'' then Throws
             else Undefined),
      chat = [], runQueue = []\<rparr>"

definition sample_keeper :: "sample_num Mindkeeper" where
  "sample_keeper =
     registerStore
       (registerStore (registerStore (new_Mindkeeper sample_world) ''level'' Tnumber)
          ''player'' Tstring)
       ''score'' Tstring"

text \<open>
  A second world and keeper, as they are before \<^verbatim>\<open>registerToWorld\<close> has run: \<open>level\<close> holds
  5 and \<open>title\<close> holds a text, reading \<open>count\<close> throws, and \<open>name\<close> and \<open>done\<close> are unset.
  The keeper registers the five names, with stores of each of the three types among the
  ones that are not defined.
\<close>

definition fresh_world :: "sample_num World" where
  "fresh_world =
     \<lparr>dynamicProperties =
        (\<lambda>n. if n = ''level'' then Defined (JNumber (SInt 5))
             else if n = ''title'' then Defined (JString ''bob'')
             else if n = ''count'' then Throws
             else Undefined),
      chat = [], runQueue = []\<rparr>"

definition fresh_keeper :: "sample_num Mindkeeper" where
  "fresh_keeper =
     registerStore
       (registerStore
          (registerStore
             (registerStore (registerStore (new_Mindkeeper fresh_world) ''level'' Tnumber)
                ''title'' Tstring)
             ''name'' Tstring)
          ''count'' Tnumber)
       ''done'' Tboolean"

section \<open>Level 3\<close>

text \<open>
  \<^verbatim>\<open>checkCompletion\<close> of level 3 reads the world and then acts on it; every read comes
  before the first action, so the model is a function from what the reads return to the
  result and the list of the actions, in the order of the source.

  Modelled from the spec: the helpers \<^verbatim>\<open>agentUtils\<close>, \<^verbatim>\<open>vectorUtils\<close> and \<^verbatim>\<open>pupeteer\<close> and
  the block API are not among the sources. The spec names them as consumed services:
  point block queries by coordinate, teleport-to-position, check-at-position, and setting
  on-screen text. A block query gives the block's type identifier, or nothing where
  \<^verbatim>\<open>getBlock\<close> returns \<^verbatim>\<open>undefined\<close>; the dimension is looked up by the name the source writes.
\<close>

datatype Vector3 = vector3 real real real

fun Vector3Add :: "Vector3 \<Rightarrow> Vector3 \<Rightarrow> Vector3" where
  "Vector3Add (vector3 a b c) (vector3 d e f) = vector3 (a + d) (b + e) (c + f)"

datatype Condition = Condition (block: string) (position: Vector3)

record LevelWorld =
  getAgentLocation :: Vector3
  getBlock :: "string \<Rightarrow> Vector3 \<Rightarrow> string option"
  isAgentAt :: "Vector3 \<Rightarrow> bool"

datatype action =
    teleportAgent Vector3
  | setTitleTimed string real
  | updateSubtitle string
  | fillBlocks string Vector3 Vector3 string

text \<open>
  The table \<^verbatim>\<open>MinecraftBlockTypes\<close> and the list \<^verbatim>\<open>level3Conditions.conditions\<close> are not
  among the sources either: the two identifiers of the table that the function uses, and
  the list, are parameters.
\<close>

record MinecraftBlockTypes =
  Water :: string
  RedstoneBlock :: string

definition level3StartPosition :: Vector3 where
  "level3StartPosition = vector3 56 69 235"

definition Level3EndPosition :: Vector3 where
  "Level3EndPosition = vector3 72 70 235"

definition level3ResetCommandBlockPos :: Vector3 where
  "level3ResetCommandBlockPos = vector3 54 68 242"

text \<open>The result is \<open>Some True\<close>, \<open>Some False\<close>, or \<open>None\<close> when the function ends without \<^verbatim>\<open>return\<close>.\<close>

definition checkCompletion ::
  "MinecraftBlockTypes \<Rightarrow> Condition list \<Rightarrow> LevelWorld \<Rightarrow> bool option \<times> action list" where
  "checkCompletion types conditions w =
     (let agentLocation = getAgentLocation w;
          blockUnderAgent = getBlock w ''overworld'' (Vector3Add agentLocation (vector3 0 (- 1) 0));
          isOutOfBounds = (blockUnderAgent = Some (Water types));
          isComplete =
            foldl (\<lambda>c condition.
                     if Some (block condition) \<noteq> getBlock w ''Overworld'' (position condition)
                     then False else c)
              True conditions
      in if isComplete \<and> \<not> isOutOfBounds then (Some True, [])
         else if isOutOfBounds then
           (Some False,
            [teleportAgent level3StartPosition,
             setTitleTimed ''%message.level.outofbounds'' 2.5,
             updateSubtitle ''%message.level.outofbounds.subtext''])
         else if isAgentAt w Level3EndPosition then
           (None,
            [teleportAgent level3StartPosition,
             setTitleTimed ''%message.level.incorrect'' 2.5,
             updateSubtitle ''%message.level.incorrect.subtext'',
             fillBlocks ''overworld'' level3ResetCommandBlockPos level3ResetCommandBlockPos
               (RedstoneBlock types)])
         else (None, []))"

text \<open>Concrete inputs: two conditions, and the identifiers of the vanilla data.\<close>

definition sample_types :: MinecraftBlockTypes where
  "sample_types = \<lparr>Water = ''minecraft:water'', RedstoneBlock = ''minecraft:redstone_block''\<rparr>"

definition sample_conditions :: "Condition list" where
  "sample_conditions =
     [Condition ''minecraft:stone'' (vector3 60 69 235),
      Condition ''minecraft:dirt'' (vector3 61 69 235)]"

text \<open>
  Both blocks in place when \<open>stone\<close> holds; the agent at \<open>loc\<close>, and water under
  \<open>vector3 57 68 235\<close> only.
\<close>

definition sample_level :: "bool \<Rightarrow> Vector3 \<Rightarrow> LevelWorld" where
  "sample_level stone loc =
     \<lparr>getAgentLocation = loc,
      getBlock = (\<lambda>d p.
         if p = vector3 57 68 235 then Some ''minecraft:water''
         else if p = vector3 60 69 235 \<and> stone then Some ''minecraft:stone''
         else if p = vector3 61 69 235 then Some ''minecraft:dirt''
         else Some ''minecraft:air''),
      isAgentAt = (\<lambda>p. p = loc)\<rparr>"

section \<open>Facts about the helper functions\<close>

lemma find_store_None: "find_store stores n = None \<longleftrightarrow> (\<forall>s\<in>set stores. getName s \<noteq> n)"
  by (auto simp: find_store_def find_None_iff)

lemma find_store_Some: "find_store stores n = Some s \<Longrightarrow> s \<in> set stores \<and> getName s = n"
  by (auto simp: find_store_def find_Some_iff)

text \<open>When every descriptor of a name declares the type \<open>T\<close>, the lookup finds \<open>T\<close>.\<close>

lemma declared_type:
  assumes "\<forall>s\<in>set stores. getName s = n \<longrightarrow> getType s = T"
  shows "map_option (\<lambda>s. StoreType_value (getType s)) (find_store stores n) =
         (if \<exists>s\<in>set stores. getName s = n then Some (StoreType_value T) else None)"
proof (cases "find_store stores n")
  case None
  then show ?thesis by (auto simp: find_store_None)
next
  case (Some s)
  from find_store_Some [OF Some] assms show ?thesis using Some by auto
qed

text \<open>The last queued write to a key is the value the key holds after the queue has run.\<close>

lemma flush_last:
  "dynamicProperties (flush (w\<lparr>runQueue := q @ [(n, v)]\<rparr>)) n = Defined v"
  by (simp add: flush_def setDynamicProperty_def)

text \<open>\<^verbatim>\<open>set\<close> and \<^verbatim>\<open>get\<close>, by what the lookup and the read return.\<close>

lemma set_store_found:
  assumes "find_store (registerdStores k) n = Some s"
  shows "set_store k n v =
     (if typeof v = StoreType_value (getType s)
      then k\<lparr>world := (world k)\<lparr>runQueue := runQueue (world k) @ [(n, v)]\<rparr>\<rparr>
      else k\<lparr>world := (world k)\<lparr>chat := chat (world k) @
                [''Store '' @ n @ '' is not of type '' @ typeof v]\<rparr>\<rparr>)"
  using assms by (auto simp: set_store_def system_run_def sendMessage_def)

lemma set_store_missing:
  assumes "find_store (registerdStores k) n = None"
  shows "set_store k n v =
      k\<lparr>world := (world k)\<lparr>chat := chat (world k) @
                [''Store '' @ n @ '' is not of type '' @ typeof v]\<rparr>\<rparr>"
  using assms by (simp add: set_store_def sendMessage_def)

lemma get_store_cases:
  "get_store k (Some n) =
     (case dynamicProperties (world k) n of
        Throws \<Rightarrow> (None, k)
      | Undefined \<Rightarrow>
          (None, k\<lparr>world := (world k)\<lparr>chat := chat (world k) @
                      [''Store '' @ n @ '' is not defined'']\<rparr>\<rparr>)
      | Defined v \<Rightarrow> (Some v, k))"
  by (simp add: get_store_def sendMessage_def split: DynamicProperty.splits)

text \<open>The first token is the text before the first space.\<close>

lemma split_sp_first: "index (split_sp m) 0 = Some (takeWhile (\<lambda>c. c \<noteq> CHR '' '') m)"
proof (induction m)
  case Nil
  show ?case by (simp add: index_def)
next
  case (Cons c m)
  then show ?case by (cases "split_sp m") (simp_all add: index_def)
qed

lemma prefix_first:
  assumes "prefix p m" and "\<forall>c\<in>set p. c \<noteq> CHR '' ''"
  shows "\<exists>t. index (split_sp m) 0 = Some t \<and> prefix p t"
proof -
  from assms(1) obtain r where m: "m = p @ r" by (auto simp: prefix_def)
  have "takeWhile (\<lambda>c. c \<noteq> CHR '' '') (p @ r) = p @ takeWhile (\<lambda>c. c \<noteq> CHR '' '') r"
    using assms(2) by (simp add: takeWhile_append2)
  then show ?thesis by (simp add: split_sp_first m)
qed

text \<open>A text whose first token does not start with \<^verbatim>\<open>!listStores\<close> does not either.\<close>

lemma not_listStores:
  assumes "index (split_sp m) 0 = Some t" and "\<not> prefix ''!listStores'' t"
  shows "\<not> prefix ''!listStores'' m"
proof
  assume "prefix ''!listStores'' m"
  then have "\<exists>t. index (split_sp m) 0 = Some t \<and> prefix ''!listStores'' t"
    by (rule prefix_first) simp
  with assms show False by simp
qed

text \<open>What \<^verbatim>\<open>chatCommands\<close> does, by the first token.\<close>

lemma chat_set:
  assumes "index (split_sp m) 0 = Some ''!set''"
  shows "chatCommands js k m = snd (command_set js k m)"
proof -
  have "\<not> prefix ''!listStores'' m"
    using assms by (rule not_listStores) simp
  then show ?thesis
    by (cases "command_set js k m")
       (simp add: chatCommands_def assms command_set_def getStores_def set_store_def
          split: option.splits StoreType.splits if_splits prod.splits)
qed

lemma chat_deleteStores:
  assumes "index (split_sp m) 0 = Some ''!deleteStores''"
  shows "chatCommands js k m = command_deleteStores k"
proof -
  have "\<not> prefix ''!listStores'' m"
    using assms by (rule not_listStores) simp
  then show ?thesis by (simp add: chatCommands_def assms command_deleteStores_def)
qed

lemma chat_deleteStoresConfirm:
  assumes "index (split_sp m) 0 = Some ''!deleteStoresConfirm''"
  shows "chatCommands js k m = (if secondWarning k then command_deleteStoresConfirm k else k)"
proof -
  have "\<not> prefix ''!listStores'' m"
    using assms by (rule not_listStores) simp
  then show ?thesis by (simp add: chatCommands_def assms)
qed

text \<open>The sample keeper and its world, field by field.\<close>

lemma sample_keeper_stores:
  "registerdStores sample_keeper =
     [Store Tnumber ''level'', Store Tstring ''player'', Store Tstring ''score'']"
  by (simp add: sample_keeper_def registerStore_def new_Mindkeeper_def)

lemma sample_keeper_world: "world sample_keeper = sample_world"
  by (simp add: sample_keeper_def registerStore_def new_Mindkeeper_def)

lemma sample_keeper_flags:
  "initialised sample_keeper = False"
  "secondWarning sample_keeper = False"
  "debugLog sample_keeper = []"
  by (simp_all add: sample_keeper_def registerStore_def new_Mindkeeper_def)

lemma sample_found:
  "find_store (registerdStores sample_keeper) ''level'' = Some (Store Tnumber ''level'')"
  "find_store (registerdStores sample_keeper) ''player'' = Some (Store Tstring ''player'')"
  "find_store (registerdStores sample_keeper) ''score'' = Some (Store Tstring ''score'')"
  "find_store (registerdStores sample_keeper) ''legacy'' = None"
  "find_store (registerdStores sample_keeper) ''ghost'' = None"
  by (simp_all add: sample_keeper_stores find_store_def)

lemma sample_world_fields:
  "dynamicProperties sample_world ''level'' = Defined (JNumber (SInt 5))"
  "dynamicProperties sample_world ''score'' = Defined (JNumber (SInt 3))"
  "dynamicProperties sample_world ''legacy'' = Defined (JString ''old'')"
  "dynamicProperties sample_world ''ghost'' = Throws"
  "dynamicProperties sample_world ''player'' = Undefined"
  "chat sample_world = []"
  "runQueue sample_world = []"
  by (simp_all add: sample_world_def)

lemma fresh_keeper_stores:
  "registerdStores fresh_keeper =
     [Store Tnumber ''level'', Store Tstring ''title'', Store Tstring ''name'',
      Store Tnumber ''count'', Store Tboolean ''done'']"
  by (simp add: fresh_keeper_def registerStore_def new_Mindkeeper_def)

lemma fresh_keeper_world: "world fresh_keeper = fresh_world"
  by (simp add: fresh_keeper_def registerStore_def new_Mindkeeper_def)

lemma fresh_world_fields:
  "dynamicProperties fresh_world ''level'' = Defined (JNumber (SInt 5))"
  "dynamicProperties fresh_world ''title'' = Defined (JString ''bob'')"
  "dynamicProperties fresh_world ''count'' = Throws"
  "dynamicProperties fresh_world ''name'' = Undefined"
  "dynamicProperties fresh_world ''done'' = Undefined"
  "chat fresh_world = []"
  "runQueue fresh_world = []"
  by (simp_all add: fresh_world_def)

text \<open>\<^verbatim>\<open>set\<close> refuses a number for a name that the lookup does not find registered as a number.\<close>

lemma set_store_not_number:
  assumes "map_option getType (find_store (registerdStores k) n) \<noteq> Some Tnumber"
  shows "set_store k n (JNumber y) =
      k\<lparr>world := (world k)\<lparr>chat := chat (world k) @
                [''Store '' @ n @ '' is not of type number'']\<rparr>\<rparr>"
proof (cases "find_store (registerdStores k) n")
  case None
  then show ?thesis by (simp add: set_store_missing)
next
  case (Some s)
  with assms have "getType s \<noteq> Tnumber" by simp
  then have "StoreType_value (getType s) \<noteq> ''number''"
    by (cases "getType s") simp_all
  then show ?thesis by (auto simp: set_store_found [OF Some])
qed

section \<open>Writing a store\<close>

text \<open>
  C1. Let every descriptor registered under the name \<open>n\<close> declare the type \<open>T\<close>. If \<open>n\<close>
  is registered and \<^verbatim>\<open>typeof v\<close> is \<open>T\<close>, \<^verbatim>\<open>set(n, v)\<close> queues the write of \<open>v\<close> to \<open>n\<close> and
  does nothing else, and \<open>n\<close> holds \<open>v\<close> once the queue has run. In every other case (the
  name is not registered, or the type differs) it sends the text
  \<^verbatim>\<open>Store n is not of type ...\<close> and does nothing else: no write is queued and the dynamic
  properties are as before.
\<close>

theorem set_type_safety:
  assumes "\<forall>s\<in>set (registerdStores k). getName s = n \<longrightarrow> getType s = T"
  shows "set_store k n v =
     (if (\<exists>s\<in>set (registerdStores k). getName s = n) \<and> typeof v = StoreType_value T
      then k\<lparr>world := (world k)\<lparr>runQueue := runQueue (world k) @ [(n, v)]\<rparr>\<rparr>
      else k\<lparr>world := (world k)\<lparr>chat := chat (world k) @
                [''Store '' @ n @ '' is not of type '' @ typeof v]\<rparr>\<rparr>)
   \<and> ((\<exists>s\<in>set (registerdStores k). getName s = n) \<and> typeof v = StoreType_value T
        \<longrightarrow> dynamicProperties (flush (world (set_store k n v))) n = Defined v)"
  unfolding set_store_def declared_type [OF assms]
  by (auto simp: system_run_def sendMessage_def flush_last)

text \<open>
  On the sample keeper: a number is queued for the number store \<open>level\<close> and is its value
  after the queue has run; a text for \<open>level\<close> is refused with a message.
\<close>

theorem set_type_safety_witness:
  "set_store sample_keeper ''level'' (JNumber (SInt 6)) =
     sample_keeper\<lparr>world := sample_world\<lparr>runQueue := [(''level'', JNumber (SInt 6))]\<rparr>\<rparr>
   \<and> dynamicProperties (flush (world (set_store sample_keeper ''level'' (JNumber (SInt 6)))))
        ''level'' = Defined (JNumber (SInt 6))
   \<and> set_store sample_keeper ''level'' (JString ''six'') =
     sample_keeper\<lparr>world := sample_world\<lparr>chat := [''Store level is not of type string'']\<rparr>\<rparr>"
proof -
  have one: "\<forall>s\<in>set (registerdStores sample_keeper).
               getName s = ''level'' \<longrightarrow> getType s = Tnumber"
    by (simp add: sample_keeper_stores)
  have reg: "\<exists>s\<in>set (registerdStores sample_keeper). getName s = ''level''"
    by (simp add: sample_keeper_stores)
  from set_type_safety [OF one, of "JNumber (SInt 6)"] set_type_safety [OF one, of "JString ''six''"]
    reg
  show ?thesis
    by (auto simp: sample_keeper_world sample_world_fields)
qed

section \<open>Registering the stores to the world\<close>

lemma register_one_keeps:
  "dynamicProperties (world k) m = Defined v \<Longrightarrow>
   dynamicProperties (world (register_one k s)) m = Defined v"
  by (auto simp: register_one_def Let_def setDynamicProperty_def
      split: sum.splits option.splits DynamicProperty.splits)

lemma register_one_defined:
  "dynamicProperties (world k) (getName s) = Defined v \<Longrightarrow> register_one k s = k"
  by (simp add: register_one_def)

lemma register_one_writes:
  "\<forall>v. dynamicProperties (world k) (getName s) \<noteq> Defined v \<Longrightarrow>
   dynamicProperties (world (register_one k s)) (getName s) = Defined (zero_value (getType s))"
  by (cases "dynamicProperties (world k) (getName s)")
     (simp_all add: register_one_def setDynamicProperty_def)

lemma register_one_other:
  "getName s \<noteq> m \<Longrightarrow>
   dynamicProperties (world (register_one k s)) m = dynamicProperties (world k) m"
  by (cases "dynamicProperties (world k) (getName s)")
     (simp_all add: register_one_def setDynamicProperty_def)

lemma register_one_stores: "registerdStores (register_one k s) = registerdStores k"
  by (simp add: register_one_def Let_def split: sum.splits option.splits)

text \<open>The loop never changes a defined value.\<close>

lemma register_all_keeps:
  "dynamicProperties (world k) m = Defined v \<Longrightarrow>
   dynamicProperties (world (foldl (register_one) k xs)) m = Defined v"
  by (induction xs arbitrary: k) (simp_all add: register_one_keeps)

text \<open>Over descriptors that are all defined, the loop does nothing.\<close>

lemma register_all_defined:
  "\<forall>s\<in>set xs. \<exists>v. dynamicProperties (world k) (getName s) = Defined v \<Longrightarrow>
   foldl (register_one) k xs = k"
  by (induction xs) (auto simp: register_one_defined)

text \<open>
  A name that is not defined, and whose descriptors all declare \<open>T\<close>, holds the zero value
  of \<open>T\<close> after the loop: the first descriptor of that name writes it, the later ones find
  it defined.
\<close>

lemma register_all_writes:
  assumes "\<forall>s\<in>set xs. getName s = m \<longrightarrow> getType s = T"
    and "\<exists>s\<in>set xs. getName s = m"
    and "\<forall>v. dynamicProperties (world k) m \<noteq> Defined v"
  shows "dynamicProperties (world (foldl (register_one) k xs)) m = Defined (zero_value T)"
  using assms
proof (induction xs arbitrary: k)
  case Nil
  then show ?case by simp
next
  case (Cons s xs)
  show ?case
  proof (cases "getName s = m")
    case True
    with Cons.prems have "getType s = T" by simp
    with True Cons.prems(3) register_one_writes [of k s]
    have "dynamicProperties (world (register_one k s)) m = Defined (zero_value T)"
      by simp
    then show ?thesis by (simp add: register_all_keeps)
  next
    case False
    with Cons.prems have "\<exists>s\<in>set xs. getName s = m" by auto
    moreover from False Cons.prems(3)
    have "\<forall>v. dynamicProperties (world (register_one k s)) m \<noteq> Defined v"
      by (simp add: register_one_other)
    moreover from Cons.prems(1) have "\<forall>s\<in>set xs. getName s = m \<longrightarrow> getType s = T" by simp
    ultimately show ?thesis using Cons.IH [of "register_one k s"] by simp
  qed
qed

text \<open>After the loop every descriptor it went through is defined.\<close>

lemma register_all_covers:
  "s \<in> set xs \<Longrightarrow>
   \<exists>v. dynamicProperties (world (foldl (register_one) k xs)) (getName s) = Defined v"
proof (induction xs arbitrary: k)
  case Nil
  then show ?case by simp
next
  case (Cons a xs)
  show ?case
  proof (cases "s = a")
    case True
    have "\<exists>v. dynamicProperties (world (register_one k a)) (getName a) = Defined v"
      by (cases "dynamicProperties (world k) (getName a)")
         (simp_all add: register_one_def setDynamicProperty_def)
    then show ?thesis using True by (auto simp: register_all_keeps)
  next
    case False
    with Cons show ?thesis by simp
  qed
qed

lemma register_all_stores:
  "registerdStores (foldl (register_one) k xs) = registerdStores k"
  by (induction xs arbitrary: k) (simp_all add: register_one_stores)

lemma registerToWorld_twice: "registerToWorld (registerToWorld k) = registerToWorld k"
proof -
  let ?k' = "registerToWorld k"
  have stores: "registerdStores ?k' = registerdStores k"
    by (simp add: registerToWorld_def register_all_stores)
  have w: "world ?k' = world (foldl (register_one) k (registerdStores k))"
    by (simp add: registerToWorld_def)
  have "\<forall>s\<in>set (registerdStores k). \<exists>v. dynamicProperties (world ?k') (getName s) = Defined v"
    unfolding w using register_all_covers by blast
  then have "foldl (register_one) ?k' (registerdStores k) = ?k'"
    by (rule register_all_defined)
  then have "registerToWorld ?k' = ?k'\<lparr>initialised := True\<rparr>"
    unfolding registerToWorld_def [of ?k'] stores by simp
  also have "\<dots> = ?k'" by (simp add: registerToWorld_def)
  finally show ?thesis .
qed

lemma registerToWorld_keeps:
  "dynamicProperties (world k) m = Defined v \<Longrightarrow>
   dynamicProperties (world (registerToWorld k)) m = Defined v"
  by (simp add: registerToWorld_def register_all_keeps)

lemma registerToWorld_pow: "(registerToWorld ^^ Suc i) k = registerToWorld k"
proof (induction i)
  case 0
  show ?case by simp
next
  case (Suc i)
  have "(registerToWorld ^^ Suc (Suc i)) k =
        registerToWorld ((registerToWorld ^^ Suc i) k)"
    by simp
  also have "\<dots> = registerToWorld (registerToWorld k)"
    by (simp only: Suc.IH)
  also have "\<dots> = registerToWorld k"
    by (rule registerToWorld_twice)
  finally show ?case .
qed

lemma registerToWorld_pow_keeps:
  assumes "dynamicProperties (world k) m = Defined v"
  shows "dynamicProperties (world ((registerToWorld ^^ i) k)) m = Defined v"
proof (induction i)
  case 0
  from assms show ?case by simp
next
  case (Suc i)
  from registerToWorld_keeps [OF Suc.IH] show ?case by simp
qed

text \<open>
  C2. \<^verbatim>\<open>registerToWorld\<close> is idempotent and non-destructive. A key that holds a defined
  value, registered or not, holds the same value after any number \<open>i\<close> of calls. For a
  registered descriptor \<open>s\<close> whose name is not defined (the read throws or returns
  \<^verbatim>\<open>undefined\<close>), and whose name is registered with one type only, the name holds the zero
  value of the type of \<open>s\<close> after one call and after any further calls: the empty string
  for a string store, 0 for a number store, \<^verbatim>\<open>false\<close> for a boolean store.
  \<open>initialised\<close> is true after a call, and one call or more leave the same Mindkeeper as
  one call.
\<close>

theorem registerToWorld_idempotent:
  assumes "s \<in> set (registerdStores k)"
    and "\<forall>s'\<in>set (registerdStores k). getName s' = getName s \<longrightarrow> getType s' = getType s"
  shows "(dynamicProperties (world k) m = Defined v \<longrightarrow>
            dynamicProperties (world ((registerToWorld ^^ i) k)) m = Defined v)
       \<and> ((\<forall>v. dynamicProperties (world k) (getName s) \<noteq> Defined v) \<longrightarrow>
            dynamicProperties (world ((registerToWorld ^^ Suc i) k)) (getName s) =
              Defined (case getType s of
                         Tstring \<Rightarrow> JString ''''
                       | Tnumber \<Rightarrow> JNumber 0
                       | Tboolean \<Rightarrow> JBoolean False))
       \<and> initialised (registerToWorld k)
       \<and> (registerToWorld ^^ Suc i) k = registerToWorld k"
proof (intro conjI impI)
  assume "dynamicProperties (world k) m = Defined v"
  then show "dynamicProperties (world ((registerToWorld ^^ i) k)) m = Defined v"
    by (rule registerToWorld_pow_keeps)
next
  assume unset: "\<forall>v. dynamicProperties (world k) (getName s) \<noteq> Defined v"
  from assms(1) have named: "\<exists>s'\<in>set (registerdStores k). getName s' = getName s"
    by blast
  have "dynamicProperties (world (registerToWorld k)) (getName s) =
          Defined (zero_value (getType s))"
    using register_all_writes [OF assms(2) named unset]
    by (simp add: registerToWorld_def)
  then have "dynamicProperties (world (registerToWorld k)) (getName s) =
          Defined (case getType s of
                     Tstring \<Rightarrow> JString ''''
                   | Tnumber \<Rightarrow> JNumber 0
                   | Tboolean \<Rightarrow> JBoolean False)"
    by (cases "getType s") simp_all
  then show "dynamicProperties (world ((registerToWorld ^^ Suc i) k)) (getName s) =
          Defined (case getType s of
                     Tstring \<Rightarrow> JString ''''
                   | Tnumber \<Rightarrow> JNumber 0
                   | Tboolean \<Rightarrow> JBoolean False)"
    by (simp only: registerToWorld_pow)
next
  show "initialised (registerToWorld k)" by (simp add: registerToWorld_def)
next
  show "(registerToWorld ^^ Suc i) k = registerToWorld k" by (rule registerToWorld_pow)
qed

text \<open>
  On the fresh keeper: after two calls \<open>level\<close> keeps its 5 and \<open>title\<close> its text; after
  three calls the unset string store \<open>name\<close> holds the empty string, the number store
  \<open>count\<close>, whose read threw, holds 0, and the unset boolean store \<open>done\<close> holds
  \<^verbatim>\<open>false\<close>; and the result is that of one call.
\<close>

theorem registerToWorld_idempotent_witness:
  "dynamicProperties (world ((registerToWorld ^^ 2) fresh_keeper)) ''level'' =
     Defined (JNumber (SInt 5))
   \<and> dynamicProperties (world ((registerToWorld ^^ 2) fresh_keeper)) ''title'' =
     Defined (JString ''bob'')
   \<and> dynamicProperties (world ((registerToWorld ^^ Suc 2) fresh_keeper)) ''name'' =
     Defined (JString '''')
   \<and> dynamicProperties (world ((registerToWorld ^^ Suc 2) fresh_keeper)) ''count'' =
     Defined (JNumber (SInt 0))
   \<and> dynamicProperties (world ((registerToWorld ^^ Suc 2) fresh_keeper)) ''done'' =
     Defined (JBoolean False)
   \<and> initialised (registerToWorld fresh_keeper)
   \<and> (registerToWorld ^^ Suc 2) fresh_keeper = registerToWorld fresh_keeper"
proof -
  have mem:
    "Store Tstring ''name'' \<in> set (registerdStores fresh_keeper)"
    "Store Tnumber ''count'' \<in> set (registerdStores fresh_keeper)"
    "Store Tboolean ''done'' \<in> set (registerdStores fresh_keeper)"
    by (simp_all add: fresh_keeper_stores)
  have one:
    "\<forall>s'\<in>set (registerdStores fresh_keeper).
       getName s' = getName (Store Tstring ''name'') \<longrightarrow>
       getType s' = getType (Store Tstring ''name'')"
    "\<forall>s'\<in>set (registerdStores fresh_keeper).
       getName s' = getName (Store Tnumber ''count'') \<longrightarrow>
       getType s' = getType (Store Tnumber ''count'')"
    "\<forall>s'\<in>set (registerdStores fresh_keeper).
       getName s' = getName (Store Tboolean ''done'') \<longrightarrow>
       getType s' = getType (Store Tboolean ''done'')"
    by (simp_all add: fresh_keeper_stores)
  note a = registerToWorld_idempotent
         [OF mem(1) one(1), where m = "''level''" and v = "JNumber (SInt 5)" and i = 2]
  note b = registerToWorld_idempotent
         [OF mem(2) one(2), where m = "''title''" and v = "JString ''bob''" and i = 2]
  note c = registerToWorld_idempotent
         [OF mem(3) one(3), where m = "''level''" and v = "JNumber (SInt 5)" and i = 2]
  from a b c show ?thesis
    by (auto simp: fresh_keeper_world fresh_world_fields zero_sample_num_def
        simp del: funpow.simps)
qed

section \<open>Deleting the stores\<close>

text \<open>
  C3. The deletion is gated by the flag \<open>secondWarning\<close>. For a text \<open>c\<close> whose command is
  \<^verbatim>\<open>!deleteStoresConfirm\<close> and a text \<open>a\<close> whose command is \<^verbatim>\<open>!deleteStores\<close>: while the flag
  is not armed, \<open>c\<close> changes nothing at all; \<open>a\<close> sends the two warnings and arms the flag
  and does nothing else; while the flag is armed, \<open>c\<close> leaves no key of the world with a
  defined value, registered or not, and disarms the flag, and a second \<open>c\<close> right after it
  changes nothing.
\<close>

theorem delete_confirmation_gate:
  assumes "index (split_sp a) 0 = Some ''!deleteStores''"
    and "index (split_sp c) 0 = Some ''!deleteStoresConfirm''"
  shows "(\<not> secondWarning k \<longrightarrow> chatCommands js k c = k)
       \<and> chatCommands js k a =
           k\<lparr>world := (world k)\<lparr>chat := chat (world k) @
                [''ARE YOU SURE YOU WANT TO DELETE ALL STORES? THIS COULD CAUSE ISSUES'',
                 ''If you are sure, type !deleteStoresConfirm'']\<rparr>,
             secondWarning := True\<rparr>
       \<and> (secondWarning k \<longrightarrow>
            (\<forall>n v. dynamicProperties (world (chatCommands js k c)) n \<noteq> Defined v)
          \<and> \<not> secondWarning (chatCommands js k c)
          \<and> chatCommands js (chatCommands js k c) c = chatCommands js k c)"
proof (intro conjI impI)
  assume "\<not> secondWarning k"
  then show "chatCommands js k c = k" by (simp add: chat_deleteStoresConfirm [OF assms(2)])
next
  show "chatCommands js k a =
           k\<lparr>world := (world k)\<lparr>chat := chat (world k) @
                [''ARE YOU SURE YOU WANT TO DELETE ALL STORES? THIS COULD CAUSE ISSUES'',
                 ''If you are sure, type !deleteStoresConfirm'']\<rparr>,
             secondWarning := True\<rparr>"
    by (simp add: chat_deleteStores [OF assms(1)] command_deleteStores_def sendMessage_def)
next
  assume armed: "secondWarning k"
  then have eq: "chatCommands js k c = command_deleteStoresConfirm k"
    by (simp add: chat_deleteStoresConfirm [OF assms(2)])
  show "\<forall>n v. dynamicProperties (world (chatCommands js k c)) n \<noteq> Defined v"
    unfolding eq
    by (simp add: command_deleteStoresConfirm_def clearDynamicProperties_def
        split: DynamicProperty.splits)
  show off: "\<not> secondWarning (chatCommands js k c)"
    unfolding eq by (simp add: command_deleteStoresConfirm_def)
  from off show "chatCommands js (chatCommands js k c) c = chatCommands js k c"
    by (simp add: chat_deleteStoresConfirm [OF assms(2)])
qed

text \<open>
  On the sample keeper, whose flag is not armed: the confirmation alone changes nothing;
  after \<^verbatim>\<open>!deleteStores\<close> the flag is armed, and the confirmation then removes the values
  of the registered \<open>level\<close> and of the unregistered \<open>legacy\<close> and disarms the flag.
\<close>

theorem delete_confirmation_gate_witness:
  "chatCommands sample_js sample_keeper ''!deleteStoresConfirm'' = sample_keeper
   \<and> secondWarning (chatCommands sample_js sample_keeper ''!deleteStores'')
   \<and> dynamicProperties (world (chatCommands sample_js
         (chatCommands sample_js sample_keeper ''!deleteStores'') ''!deleteStoresConfirm''))
       ''level'' \<noteq> Defined (JNumber (SInt 5))
   \<and> dynamicProperties (world (chatCommands sample_js
         (chatCommands sample_js sample_keeper ''!deleteStores'') ''!deleteStoresConfirm''))
       ''legacy'' \<noteq> Defined (JString ''old'')
   \<and> \<not> secondWarning (chatCommands sample_js
         (chatCommands sample_js sample_keeper ''!deleteStores'') ''!deleteStoresConfirm'')"
proof -
  have a: "index (split_sp ''!deleteStores'') 0 = Some ''!deleteStores''"
    by (simp add: index_def)
  have c: "index (split_sp ''!deleteStoresConfirm'') 0 = Some ''!deleteStoresConfirm''"
    by (simp add: index_def)
  note idle = delete_confirmation_gate [OF a c, where k = sample_keeper and js = sample_js]
  from idle have armed: "secondWarning (chatCommands sample_js sample_keeper ''!deleteStores'')"
    by simp
  note gate = delete_confirmation_gate [OF a c,
      where k = "chatCommands sample_js sample_keeper ''!deleteStores''" and js = sample_js]
  from gate armed have
    "\<forall>n v. dynamicProperties (world (chatCommands sample_js
         (chatCommands sample_js sample_keeper ''!deleteStores'') ''!deleteStoresConfirm'')) n
       \<noteq> Defined v"
    and "\<not> secondWarning (chatCommands sample_js
         (chatCommands sample_js sample_keeper ''!deleteStores'') ''!deleteStoresConfirm'')"
    by blast+
  moreover from idle have "chatCommands sample_js sample_keeper ''!deleteStoresConfirm'' = sample_keeper"
    by (simp add: sample_keeper_flags)
  ultimately show ?thesis using armed by blast
qed

section \<open>Reading a store\<close>

text \<open>
  C5, as amended. \<^verbatim>\<open>get\<close> never fails. When the adapter returns \<^verbatim>\<open>undefined\<close>, it sends
  the text \<^verbatim>\<open>Store n is not defined\<close> and yields \<^verbatim>\<open>undefined\<close>. When the adapter throws, it
  yields \<^verbatim>\<open>undefined\<close> and sends nothing: the message of the \<^verbatim>\<open>catch\<close> branch is commented
  out in the source. When the adapter returns a defined value, the empty string included,
  it yields that value and sends nothing.
\<close>

theorem get_absence:
  "get_store k (Some n) =
     (case dynamicProperties (world k) n of
        Throws \<Rightarrow> (None, k)
      | Undefined \<Rightarrow>
          (None, k\<lparr>world := (world k)\<lparr>chat := chat (world k) @
                      [''Store '' @ n @ '' is not defined'']\<rparr>\<rparr>)
      | Defined v \<Rightarrow> (Some v, k))"
  by (simp add: get_store_def sendMessage_def split: DynamicProperty.splits)

text \<open>
  After \<^verbatim>\<open>registerToWorld\<close> the string store \<open>player\<close> of the sample keeper is defined and
  empty: \<^verbatim>\<open>get\<close> yields the empty string, not \<^verbatim>\<open>undefined\<close>, and sends nothing.
\<close>

theorem get_absence_witness:
  "get_store (registerToWorld sample_keeper) (Some ''player'') =
     (Some (JString ''''), registerToWorld sample_keeper)"
proof -
  have "dynamicProperties (world (registerToWorld sample_keeper)) ''player'' =
          Defined (JString '''')"
    by (simp add: registerToWorld_def sample_keeper_stores register_one_def sample_keeper_world
        sample_world_fields setDynamicProperty_def)
  with get_absence [of "registerToWorld sample_keeper" "''player''"]
  show ?thesis by simp
qed

text \<open>
  C5 as stated fails where the read throws: reading \<open>ghost\<close> throws in the sample world,
  and \<^verbatim>\<open>get\<close> yields \<^verbatim>\<open>undefined\<close> with the Mindkeeper unchanged, so that no text was sent.
\<close>

theorem get_throw_silent_counterexample:
  "getDynamicProperty (world sample_keeper) (Some ''ghost'') = Inl Exception
   \<and> get_store sample_keeper (Some ''ghost'') = (None, sample_keeper)
   \<and> chat (world (snd (get_store sample_keeper (Some ''ghost'')))) = []"
  by (simp add: get_store_def sample_keeper_world sample_world_fields)

section \<open>Incrementing a store\<close>

text \<open>
  C6, as amended. \<^verbatim>\<open>increment\<close> reads, and writes through \<^verbatim>\<open>set\<close>. When the name \<open>n\<close>
  holds the number \<open>x\<close> and the lookup finds \<open>n\<close> registered as a number, it queues the
  write of \<open>x + 1\<close> and does nothing else, and \<open>n\<close> holds \<open>x + 1\<close> once the queue has run.
  Whatever the registry holds: when the adapter returns \<^verbatim>\<open>undefined\<close>, it writes nothing
  and \<^verbatim>\<open>get\<close> sends \<^verbatim>\<open>Store n is not defined\<close>; when the read throws or the value is not a
  number, it does nothing at all. When \<open>n\<close> holds a number and the lookup does not find it
  registered as a number, nothing is written and \<^verbatim>\<open>set\<close> sends its message.
\<close>

theorem increment_read_modify_write:
  "(dynamicProperties (world k) n = Defined (JNumber x)
      \<and> find_store (registerdStores k) n = Some s \<and> getType s = Tnumber \<longrightarrow>
        increment js k n =
          k\<lparr>world := (world k)\<lparr>runQueue := runQueue (world k) @
               [(n, JNumber (plus_one js x))]\<rparr>\<rparr>
      \<and> dynamicProperties (flush (world (increment js k n))) n =
          Defined (JNumber (plus_one js x)))
   \<and> (dynamicProperties (world k) n = Undefined \<longrightarrow>
        increment js k n =
          k\<lparr>world := (world k)\<lparr>chat := chat (world k) @
               [''Store '' @ n @ '' is not defined'']\<rparr>\<rparr>)
   \<and> (dynamicProperties (world k) n = Throws
        \<or> (\<exists>v. dynamicProperties (world k) n = Defined v \<and> typeof v \<noteq> ''number'') \<longrightarrow>
        increment js k n = k)
   \<and> (dynamicProperties (world k) n = Defined (JNumber x)
      \<and> map_option getType (find_store (registerdStores k) n) \<noteq> Some Tnumber \<longrightarrow>
        increment js k n =
          k\<lparr>world := (world k)\<lparr>chat := chat (world k) @
               [''Store '' @ n @ '' is not of type number'']\<rparr>\<rparr>)"
proof (intro conjI impI)
  assume h: "dynamicProperties (world k) n = Defined (JNumber x)
      \<and> find_store (registerdStores k) n = Some s \<and> getType s = Tnumber"
  then have "increment js k n = set_store k n (JNumber (plus_one js x))"
    by (simp add: increment_def get_store_cases)
  also from h have "\<dots> = k\<lparr>world := (world k)\<lparr>runQueue := runQueue (world k) @
                   [(n, JNumber (plus_one js x))]\<rparr>\<rparr>"
    by (simp add: set_store_found [of k n s])
  finally show inc: "increment js k n =
              k\<lparr>world := (world k)\<lparr>runQueue := runQueue (world k) @
                   [(n, JNumber (plus_one js x))]\<rparr>\<rparr>" .
  show "dynamicProperties (flush (world (increment js k n))) n =
              Defined (JNumber (plus_one js x))"
    unfolding inc by (simp add: flush_last)
next
  assume "dynamicProperties (world k) n = Undefined"
  then show "increment js k n =
              k\<lparr>world := (world k)\<lparr>chat := chat (world k) @
                   [''Store '' @ n @ '' is not defined'']\<rparr>\<rparr>"
    by (simp add: increment_def get_store_cases)
next
  assume "dynamicProperties (world k) n = Throws
            \<or> (\<exists>v. dynamicProperties (world k) n = Defined v \<and> typeof v \<noteq> ''number'')"
  then show "increment js k n = k"
  proof
    assume "dynamicProperties (world k) n = Throws"
    then show ?thesis by (simp add: increment_def get_store_cases)
  next
    assume "\<exists>v. dynamicProperties (world k) n = Defined v \<and> typeof v \<noteq> ''number''"
    then obtain v where "dynamicProperties (world k) n = Defined v" "typeof v \<noteq> ''number''"
      by blast
    then show ?thesis by (cases v) (simp_all add: increment_def get_store_cases)
  qed
next
  assume h: "dynamicProperties (world k) n = Defined (JNumber x)
      \<and> map_option getType (find_store (registerdStores k) n) \<noteq> Some Tnumber"
  then have "increment js k n = set_store k n (JNumber (plus_one js x))"
    by (simp add: increment_def get_store_cases)
  also from h have "\<dots> = k\<lparr>world := (world k)\<lparr>chat := chat (world k) @
               [''Store '' @ n @ '' is not of type number'']\<rparr>\<rparr>"
    by (simp add: set_store_not_number)
  finally show "increment js k n =
          k\<lparr>world := (world k)\<lparr>chat := chat (world k) @
               [''Store '' @ n @ '' is not of type number'']\<rparr>\<rparr>" .
qed

text \<open>
  The number store \<open>level\<close> of the sample keeper holds 5, and 6 after the increment. The
  string store \<open>title\<close> of the fresh keeper holds a text, and the boolean store \<open>done\<close> is
  unset: the increment of \<open>title\<close> does nothing, the one of \<open>done\<close> only sends the text of
  \<^verbatim>\<open>get\<close>. Reading the number store \<open>count\<close> throws: its increment does nothing.
\<close>

theorem increment_read_modify_write_witness:
  "increment sample_js sample_keeper ''level'' =
     sample_keeper\<lparr>world := sample_world\<lparr>runQueue := [(''level'', JNumber (SInt 6))]\<rparr>\<rparr>
   \<and> dynamicProperties (flush (world (increment sample_js sample_keeper ''level''))) ''level'' =
       Defined (JNumber (SInt 6))
   \<and> increment sample_js fresh_keeper ''title'' = fresh_keeper
   \<and> increment sample_js fresh_keeper ''count'' = fresh_keeper
   \<and> increment sample_js fresh_keeper ''done'' =
       fresh_keeper\<lparr>world := fresh_world\<lparr>chat := [''Store done is not defined'']\<rparr>\<rparr>"
proof -
  have six: "plus_one sample_js (SInt 5) = SInt 6"
    by (simp add: sample_js_def)
  have held: "\<exists>v. dynamicProperties (world fresh_keeper) ''title'' = Defined v
                \<and> typeof v \<noteq> ''number''"
    by (simp add: fresh_keeper_world fresh_world_fields)
  note a = increment_read_modify_write
      [where k = sample_keeper and n = "''level''" and x = "SInt 5"
         and s = "Store Tnumber ''level''" and js = sample_js]
  note b = increment_read_modify_write
      [where k = fresh_keeper and n = "''title''" and js = sample_js]
  note c = increment_read_modify_write
      [where k = fresh_keeper and n = "''count''" and js = sample_js]
  note d = increment_read_modify_write
      [where k = fresh_keeper and n = "''done''" and js = sample_js]
  from a have
    "increment sample_js sample_keeper ''level'' =
       sample_keeper\<lparr>world := sample_world\<lparr>runQueue := [(''level'', JNumber (SInt 6))]\<rparr>\<rparr>
     \<and> dynamicProperties (flush (world (increment sample_js sample_keeper ''level''))) ''level'' =
       Defined (JNumber (SInt 6))"
    by (auto simp: sample_keeper_world sample_world_fields sample_found six)
  moreover from b held have "increment sample_js fresh_keeper ''title'' = fresh_keeper"
    by blast
  moreover from c have "increment sample_js fresh_keeper ''count'' = fresh_keeper"
    by (simp add: fresh_keeper_world fresh_world_fields)
  moreover from d have "increment sample_js fresh_keeper ''done'' =
       fresh_keeper\<lparr>world := fresh_world\<lparr>chat := [''Store done is not defined'']\<rparr>\<rparr>"
    by (simp add: fresh_keeper_world fresh_world_fields)
  ultimately show ?thesis by blast
qed

text \<open>
  C6 as stated fails twice on the sample keeper. The store \<open>player\<close> is unset: the
  increment is not silent, the chat receives the text of \<^verbatim>\<open>get\<close>. The store \<open>score\<close> holds
  the number 3 and is registered as a string: the increment adds nothing, the chat receives
  the text of \<^verbatim>\<open>set\<close> and no write is queued.
\<close>

theorem increment_silent_counterexample:
  "dynamicProperties (world sample_keeper) ''player'' = Undefined
   \<and> increment sample_js sample_keeper ''player'' =
       sample_keeper\<lparr>world := sample_world\<lparr>chat := [''Store player is not defined'']\<rparr>\<rparr>
   \<and> dynamicProperties (world sample_keeper) ''score'' = Defined (JNumber (SInt 3))
   \<and> increment sample_js sample_keeper ''score'' =
       sample_keeper\<lparr>world := sample_world\<lparr>chat := [''Store score is not of type number'']\<rparr>\<rparr>"
  by (simp add: increment_def get_store_cases sample_keeper_world sample_world_fields
      set_store_found [OF sample_found(3)])

section \<open>The command \<^verbatim>\<open>!set\<close>\<close>

text \<open>
  C7. Let the tokens of the text be \<^verbatim>\<open>!set\<close>, a store, a literal \<open>v\<close>, and any further
  tokens \<open>hint\<close>, and let the lookup find the descriptor \<open>s\<close> for the store. The outcome is
  a function of the store, \<open>v\<close> and the type of \<open>s\<close>, so the further tokens have no effect.
  A string store is written \<open>v\<close> as it is; a number store is written \<^verbatim>\<open>Number(v)\<close>, unless
  that is not-a-number: then the text \<^verbatim>\<open>Can't parse v as a number\<close> is sent and nothing
  is written; a boolean store is written whether \<^verbatim>\<open>v.toLowerCase()\<close> is \<^verbatim>\<open>"true"\<close>. A write
  is queued and followed by the text \<^verbatim>\<open>Value of store is v\<close>.
\<close>

theorem set_command_coercion:
  assumes "split_sp m = ''!set'' # store # v # hint"
    and "find_store (registerdStores k) store = Some s"
  shows "chatCommands js k m =
     (let written = (\<lambda>x. k\<lparr>world := (world k)
                 \<lparr>runQueue := runQueue (world k) @ [(store, x)],
                  chat := chat (world k) @ [''Value of '' @ store @ '' is '' @ v]\<rparr>\<rparr>)
      in case getType s of
           Tstring \<Rightarrow> written (JString v)
         | Tnumber \<Rightarrow>
             if isNaN js (Number js v)
             then k\<lparr>world := (world k)\<lparr>chat := chat (world k) @
                    [''Can'' @ [CHR 0x27] @ ''t parse '' @ v @ '' as a number'']\<rparr>\<rparr>
             else written (JNumber (Number js v))
         | Tboolean \<Rightarrow> written (JBoolean (toLowerCase v = ''true'')))"
proof -
  have cmd: "index (split_sp m) 0 = Some ''!set''"
    and st: "index (split_sp m) (Suc 0) = Some store"
    and val: "index (split_sp m) 2 = Some v"
    by (simp_all add: assms(1) index_def)
  show ?thesis
    unfolding chat_set [OF cmd]
    by (cases "getType s")
       (simp_all add: command_set_def st val getStores_def assms(2) set_store_found [OF assms(2)]
          sendMessage_def Let_def)
qed

text \<open>
  On the sample keeper, for the number store \<open>level\<close>: the literal 7 is written as a number
  whatever the hint says, and the literal x7 is refused.
\<close>

theorem set_command_coercion_witness:
  "chatCommands sample_js sample_keeper ''!set level 7 string'' =
     sample_keeper\<lparr>world := sample_world
       \<lparr>runQueue := [(''level'', JNumber (SInt 7))], chat := [''Value of level is 7'']\<rparr>\<rparr>
   \<and> chatCommands sample_js sample_keeper ''!set level x7'' =
     sample_keeper\<lparr>world := sample_world
       \<lparr>chat := [''Can'' @ [CHR 0x27] @ ''t parse x7 as a number'']\<rparr>\<rparr>"
proof -
  have t1: "split_sp ''!set level 7 string'' = ''!set'' # ''level'' # ''7'' # [''string'']"
    by simp
  have t2: "split_sp ''!set level x7'' = ''!set'' # ''level'' # ''x7'' # []"
    by simp
  have n1: "Number sample_js ''7'' = SInt 7" and n2: "Number sample_js ''x7'' = SNaN"
    by (simp_all add: sample_js_def sample_Number_def is_digit_def digit_value_def)
  have nan: "isNaN sample_js = (\<lambda>x. x = SNaN)"
    by (simp add: sample_js_def)
  from set_command_coercion [OF t1 sample_found(1), where js = sample_js]
    set_command_coercion [OF t2 sample_found(1), where js = sample_js]
  show ?thesis
    by (simp add: n1 n2 nan sample_keeper_world sample_world_fields)
qed

section \<open>The deferred write\<close>

text \<open>
  C8. A \<^verbatim>\<open>set\<close> that passes the type check writes nothing at once: the dynamic properties
  are those of before, and a \<^verbatim>\<open>get\<close> of the same name right after it yields what it would have
  yielded before the \<^verbatim>\<open>set\<close>. Once the run queue has run, \<^verbatim>\<open>get\<close> yields the value set.
\<close>

theorem set_is_deferred:
  assumes "find_store (registerdStores k) n = Some s"
    and "typeof v = StoreType_value (getType s)"
  shows "dynamicProperties (world (set_store k n v)) = dynamicProperties (world k)
       \<and> fst (get_store (set_store k n v) (Some n)) = fst (get_store k (Some n))
       \<and> fst (get_store ((set_store k n v)\<lparr>world := flush (world (set_store k n v))\<rparr>) (Some n))
           = Some v"
proof -
  have eq: "set_store k n v = k\<lparr>world := (world k)\<lparr>runQueue := runQueue (world k) @ [(n, v)]\<rparr>\<rparr>"
    by (simp add: set_store_found [OF assms(1)] assms(2))
  show ?thesis
    unfolding eq
    by (simp add: get_store_cases flush_last split: DynamicProperty.splits)
qed

text \<open>The store \<open>level\<close> holds 5: after setting 9, \<^verbatim>\<open>get\<close> yields 5, and 9 after the queue ran.\<close>

theorem set_is_deferred_witness:
  "fst (get_store (set_store sample_keeper ''level'' (JNumber (SInt 9))) (Some ''level'')) =
     Some (JNumber (SInt 5))
   \<and> fst (get_store ((set_store sample_keeper ''level'' (JNumber (SInt 9)))
            \<lparr>world := flush (world (set_store sample_keeper ''level'' (JNumber (SInt 9))))\<rparr>)
          (Some ''level'')) = Some (JNumber (SInt 9))"
proof -
  have ty: "typeof (JNumber (SInt 9)) = StoreType_value (getType (Store Tnumber ''level''))"
    by simp
  have old: "fst (get_store sample_keeper (Some ''level'')) = Some (JNumber (SInt 5))"
    by (simp add: get_store_cases sample_keeper_world sample_world_fields)
  from set_is_deferred [OF sample_found(1) ty] old
  show ?thesis by simp
qed

section \<open>Names that are not registered\<close>

text \<open>
  C9, as amended. For a name that is not registered, \<^verbatim>\<open>set\<close> sends its message and
  writes nothing. \<^verbatim>\<open>get\<close> does not look at the registry: it yields what the adapter holds
  under the name. It yields \<^verbatim>\<open>undefined\<close> only when the adapter returns \<^verbatim>\<open>undefined\<close>, with
  the message, or throws, with no message.
\<close>

theorem unregistered_name:
  assumes "find_store (registerdStores k) n = None"
  shows "set_store k n v =
           k\<lparr>world := (world k)\<lparr>chat := chat (world k) @
                [''Store '' @ n @ '' is not of type '' @ typeof v]\<rparr>\<rparr>
       \<and> get_store k (Some n) =
           (case dynamicProperties (world k) n of
              Throws \<Rightarrow> (None, k)
            | Undefined \<Rightarrow>
                (None, k\<lparr>world := (world k)\<lparr>chat := chat (world k) @
                            [''Store '' @ n @ '' is not defined'']\<rparr>\<rparr>)
            | Defined x \<Rightarrow> (Some x, k))"
  by (simp add: set_store_missing [OF assms] get_store_cases)

text \<open>The name \<open>ghost\<close> is not registered: \<^verbatim>\<open>set\<close> refuses it, \<^verbatim>\<open>get\<close> yields nothing.\<close>

theorem unregistered_name_witness:
  "set_store sample_keeper ''ghost'' (JBoolean True) =
     sample_keeper\<lparr>world := sample_world\<lparr>chat := [''Store ghost is not of type boolean'']\<rparr>\<rparr>
   \<and> get_store sample_keeper (Some ''ghost'') = (None, sample_keeper)"
  using unregistered_name [OF sample_found(5), of "JBoolean True"]
  by (simp add: sample_keeper_world sample_world_fields)

text \<open>
  C9 as stated fails for \<^verbatim>\<open>get\<close>: the name \<open>legacy\<close> is not registered, the adapter holds a
  text under it, and \<^verbatim>\<open>get\<close> yields that text and sends nothing.
\<close>

theorem unregistered_get_counterexample:
  "find_store (registerdStores sample_keeper) ''legacy'' = None
   \<and> get_store sample_keeper (Some ''legacy'') = (Some (JString ''old''), sample_keeper)"
  by (simp add: get_store_cases sample_keeper_world sample_world_fields sample_found)

section \<open>Registering a name twice\<close>

lemma find_store_append:
  "find_store (xs @ ys) m = (case find_store xs m of None \<Rightarrow> find_store ys m | Some x \<Rightarrow> Some x)"
  by (induction xs) (simp_all add: find_store_def)

text \<open>Appending a descriptor for a name that is registered changes no lookup.\<close>

lemma find_store_duplicate:
  assumes "find_store xs n = Some s"
  shows "find_store (xs @ [Store t n]) m = find_store xs m"
proof (cases "m = n")
  case True
  with assms show ?thesis by (simp add: find_store_append)
next
  case False
  then have "find_store [Store t n] m = None"
    by (simp add: find_store_def)
  then show ?thesis by (simp add: find_store_append split: option.splits)
qed

lemma set_store_duplicate:
  assumes "find_store (registerdStores k) n = Some s"
  shows "set_store (registerStore k n t) m v = registerStore (set_store k m v) n t"
  by (auto simp: set_store_def registerStore_def find_store_duplicate [OF assms])

lemma command_set_duplicate:
  assumes "find_store (registerdStores k) n = Some s"
  shows "command_set js (registerStore k n t) m =
         (fst (command_set js k m), registerStore (snd (command_set js k m)) n t)"
proof -
  have look: "\<And>x. find_store (getStores (registerStore k n t)) x = find_store (getStores k) x"
    by (simp add: getStores_def registerStore_def find_store_duplicate [OF assms])
  have w: "\<And>k'. world (registerStore k' n t) = world k'"
    by (simp add: registerStore_def)
  have upd: "\<And>k' x. (registerStore k' n t)\<lparr>world := x\<rparr> = registerStore (k'\<lparr>world := x\<rparr>) n t"
    by (simp add: registerStore_def)
  show ?thesis
    unfolding command_set_def look
    by (simp add: set_store_duplicate [OF assms] w upd Let_def
        split: option.splits StoreType.splits)
qed

text \<open>
  C10. \<^verbatim>\<open>registerStore\<close> appends the descriptor, whatever the list holds. When the name
  \<open>n\<close> is registered already, with \<open>s\<close> its first descriptor, registering \<open>n\<close> again with the
  type \<open>t\<close> leaves the new descriptor last in \<^verbatim>\<open>getStores()\<close>, the lookup of \<open>n\<close> still
  finds \<open>s\<close>, and \<^verbatim>\<open>set\<close> and the command \<^verbatim>\<open>!set\<close> do what they did without the second
  registration: \<open>t\<close> governs neither.
\<close>

theorem duplicate_registration:
  assumes "find_store (registerdStores k) n = Some s"
  shows "getStores (registerStore k n t) = getStores k @ [Store t n]
       \<and> find_store (getStores (registerStore k n t)) n = Some s
       \<and> set_store (registerStore k n t) n v = registerStore (set_store k n v) n t
       \<and> (index (split_sp m) 0 = Some ''!set'' \<longrightarrow>
            chatCommands js (registerStore k n t) m = registerStore (chatCommands js k m) n t)"
proof (intro conjI impI)
  show "getStores (registerStore k n t) = getStores k @ [Store t n]"
    by (simp add: getStores_def registerStore_def)
  show "find_store (getStores (registerStore k n t)) n = Some s"
    by (simp add: getStores_def registerStore_def find_store_duplicate [OF assms] assms)
  show "set_store (registerStore k n t) n v = registerStore (set_store k n v) n t"
    by (rule set_store_duplicate [OF assms])
next
  assume cmd: "index (split_sp m) 0 = Some ''!set''"
  show "chatCommands js (registerStore k n t) m = registerStore (chatCommands js k m) n t"
    by (simp add: chat_set [OF cmd] command_set_duplicate [OF assms])
qed

text \<open>
  The sample keeper with \<open>level\<close> registered a second time, as a string: both descriptors
  are listed in the order of registration, and a text for \<open>level\<close> is still refused, by
  \<^verbatim>\<open>set\<close> and by \<^verbatim>\<open>!set\<close>.
\<close>

theorem duplicate_registration_witness:
  "getStores (registerStore sample_keeper ''level'' Tstring) =
     [Store Tnumber ''level'', Store Tstring ''player'', Store Tstring ''score'',
      Store Tstring ''level'']
   \<and> find_store (getStores (registerStore sample_keeper ''level'' Tstring)) ''level'' =
       Some (Store Tnumber ''level'')
   \<and> world (set_store (registerStore sample_keeper ''level'' Tstring) ''level'' (JString ''a'')) =
       sample_world\<lparr>chat := [''Store level is not of type string'']\<rparr>
   \<and> world (chatCommands sample_js (registerStore sample_keeper ''level'' Tstring)
        ''!set level abc'') =
       sample_world\<lparr>chat := [''Can'' @ [CHR 0x27] @ ''t parse abc as a number'']\<rparr>"
proof -
  have cmd: "index (split_sp ''!set level abc'') 0 = Some ''!set''"
    by (simp add: index_def)
  have toks: "split_sp ''!set level abc'' = ''!set'' # ''level'' # ''abc'' # []"
    by simp
  have nan: "isNaN sample_js (Number sample_js ''abc'')"
    by (simp add: sample_js_def sample_Number_def is_digit_def)
  have plain: "chatCommands sample_js sample_keeper ''!set level abc'' =
      sample_keeper\<lparr>world := sample_world
        \<lparr>chat := [''Can'' @ [CHR 0x27] @ ''t parse abc as a number'']\<rparr>\<rparr>"
    using nan
    by (simp add: chat_set [OF cmd] command_set_def toks index_def getStores_def sample_found
        sendMessage_def sample_keeper_world sample_world_fields)
  have refused: "set_store sample_keeper ''level'' (JString ''a'') =
      sample_keeper\<lparr>world := sample_world\<lparr>chat := [''Store level is not of type string'']\<rparr>\<rparr>"
    by (simp add: set_store_found [OF sample_found(1)] sample_keeper_world sample_world_fields)
  from duplicate_registration [OF sample_found(1),
      where t = Tstring and v = "JString ''a''" and m = "''!set level abc''" and js = sample_js]
    cmd
  show ?thesis
    by (simp add: plain refused getStores_def sample_keeper_stores registerStore_def)
qed

section \<open>The completion check of level 3\<close>

text \<open>The flag \<^verbatim>\<open>isComplete\<close> after the loop: every condition finds its block.\<close>

lemma isComplete_all:
  "foldl (\<lambda>c condition.
            if Some (block condition) \<noteq> getBlock w ''Overworld'' (position condition)
            then False else c) c0 conditions
   = (c0 \<and> list_all (\<lambda>condition. getBlock w ''Overworld'' (position condition) =
                                  Some (block condition)) conditions)"
  by (induction conditions arbitrary: c0) auto

text \<open>
  C4. \<^verbatim>\<open>checkCompletion\<close> is a three-way signal. The agent is out of bounds when the block
  under it is water; the conditions are satisfied when every condition's position holds
  its block. (a) Satisfied and not out of bounds: the result is \<^verbatim>\<open>true\<close> and nothing is
  done. (b) Out of bounds: the agent is teleported to the start position, the warning is
  shown, and the result is \<^verbatim>\<open>false\<close>. (c) Otherwise, not satisfied and the agent at the end
  position: the agent is teleported to the start, the text for an incorrect solution is
  shown, a redstone block is placed at the reset position, and there is no result. In
  the case that is left there is no result and nothing is done.
\<close>

theorem checkCompletion_three_way:
  "(let outOfBounds =
          (getBlock w ''overworld'' (Vector3Add (getAgentLocation w) (vector3 0 (- 1) 0)) =
             Some (Water types));
        satisfied =
          list_all (\<lambda>c. getBlock w ''Overworld'' (position c) = Some (block c)) conditions
    in (satisfied \<and> \<not> outOfBounds \<longrightarrow> checkCompletion types conditions w = (Some True, []))
     \<and> (outOfBounds \<longrightarrow>
          checkCompletion types conditions w =
            (Some False,
             [teleportAgent level3StartPosition,
              setTitleTimed ''%message.level.outofbounds'' 2.5,
              updateSubtitle ''%message.level.outofbounds.subtext'']))
     \<and> (\<not> satisfied \<and> \<not> outOfBounds \<and> isAgentAt w Level3EndPosition \<longrightarrow>
          checkCompletion types conditions w =
            (None,
             [teleportAgent level3StartPosition,
              setTitleTimed ''%message.level.incorrect'' 2.5,
              updateSubtitle ''%message.level.incorrect.subtext'',
              fillBlocks ''overworld'' level3ResetCommandBlockPos level3ResetCommandBlockPos
                (RedstoneBlock types)]))
     \<and> (\<not> satisfied \<and> \<not> outOfBounds \<and> \<not> isAgentAt w Level3EndPosition \<longrightarrow>
          checkCompletion types conditions w = (None, [])))"
  unfolding checkCompletion_def isComplete_all Let_def
  by simp

text \<open>
  With the two sample conditions: both blocks in place and the agent at the start gives
  \<^verbatim>\<open>true\<close>; the agent above the water gives \<^verbatim>\<open>false\<close> and the way back, although both blocks
  are in place; one block missing and the agent at the end position gives no result, the
  way back and the redstone block.
\<close>

theorem checkCompletion_three_way_witness:
  "checkCompletion sample_types sample_conditions (sample_level True (vector3 56 69 235)) =
     (Some True, [])
   \<and> checkCompletion sample_types sample_conditions (sample_level True (vector3 57 69 235)) =
     (Some False,
      [teleportAgent (vector3 56 69 235),
       setTitleTimed ''%message.level.outofbounds'' 2.5,
       updateSubtitle ''%message.level.outofbounds.subtext''])
   \<and> checkCompletion sample_types sample_conditions (sample_level False (vector3 72 70 235)) =
     (None,
      [teleportAgent (vector3 56 69 235),
       setTitleTimed ''%message.level.incorrect'' 2.5,
       updateSubtitle ''%message.level.incorrect.subtext'',
       fillBlocks ''overworld'' (vector3 54 68 242) (vector3 54 68 242)
         ''minecraft:redstone_block''])"
  using checkCompletion_three_way
      [of "sample_level True (vector3 56 69 235)" sample_types sample_conditions]
    checkCompletion_three_way
      [of "sample_level True (vector3 57 69 235)" sample_types sample_conditions]
    checkCompletion_three_way
      [of "sample_level False (vector3 72 70 235)" sample_types sample_conditions]
  by (simp add: Let_def sample_level_def sample_types_def sample_conditions_def
      level3StartPosition_def Level3EndPosition_def level3ResetCommandBlockPos_def)

end
